theory Spec2Isabelle
  imports Main "HOL-Library.Monad_Syntax" "HOL-Library.Word"
begin

section \<open>Expressions, schemas and operator payloads\<close>

text \<open>
  The transformation rules of \<^verbatim>\<open>planner/cascades/transformation_rules.go\<close> work on
  values of the packages \<^verbatim>\<open>expression\<close>, \<^verbatim>\<open>plannercore\<close> and \<^verbatim>\<open>memo\<close>.
  The rules only look at the shape of an expression (column, constant, scalar function) and
  hand everything else to helper functions of those packages, so an expression is a tree
  with exactly these three shapes. A column is identified by its unique id; a schema is the
  ordered list of its columns. A nil slice and an empty slice are both the empty list.
\<close>

type_synonym column = nat

type_synonym datum = "int option"

datatype expression =
    Column column
  | Constant datum
  | ScalarFunction string "expression list"

type_synonym schema = "column list"

text \<open>A \<^verbatim>\<open>*expression.ScalarFunction\<close>: the function name and its arguments.\<close>

type_synonym scalar_function = "string \<times> expression list"

definition GetArgs :: "scalar_function \<Rightarrow> expression list" where
  "GetArgs f = snd f"

definition ScalarFuncs2Exprs :: "scalar_function list \<Rightarrow> expression list" where
  "ScalarFuncs2Exprs fs = map (\<lambda>f. ScalarFunction (fst f) (snd f)) fs"

datatype agg_mode = CompleteMode | FinalMode | Partial1Mode | Partial2Mode | DedupMode

record agg_func_desc =
  agg_Name :: string
  agg_Args :: "expression list"
  agg_Mode :: agg_mode
  agg_RetTp :: nat

record by_items =
  by_Expr :: expression
  by_Desc :: bool

datatype join_type =
    InnerJoin | LeftOuterJoin | RightOuterJoin
  | SemiJoin | AntiSemiJoin | LeftOuterSemiJoin | AntiLeftOuterSemiJoin

text \<open>
  The operator payloads, each with the fields the rules read or write. Handles to objects
  the rules only copy (the data source, the index description, key ranges) are numbers.
\<close>

record logical_table_scan =
  ts_Source :: nat
  ts_Handle :: "column option"
  ts_AccessConds :: "expression list"

record logical_index_scan =
  is_Source :: nat
  is_IsDoubleRead :: bool
  is_EqCondCount :: int
  is_AccessConds :: "expression list"
  is_Ranges :: "nat list"
  is_Index :: nat
  is_Columns :: "nat list"
  is_FullIdxCols :: "column list"
  is_FullIdxColLens :: "int list"
  is_IdxCols :: "column list"
  is_IdxColLens :: "int list"

record logical_join =
  JoinType :: join_type
  LeftConditions :: "expression list"
  RightConditions :: "expression list"
  EqualConditions :: "scalar_function list"
  OtherConditions :: "expression list"
  LeftJoinKeys :: "column list"
  RightJoinKeys :: "column list"

record logical_aggregation =
  AggFuncs :: "agg_func_desc list"
  GroupByItems :: "expression list"

record logical_projection =
  Exprs :: "expression list"
  proj_Schema :: schema

record logical_limit =
  limit_Offset :: "64 word"
  limit_Count :: "64 word"

record logical_topn =
  topn_ByItems :: "by_items list"
  topn_Offset :: "64 word"
  topn_Count :: "64 word"

datatype plan =
    LogicalSelection "expression list"
  | LogicalProjection logical_projection
  | LogicalAggregation logical_aggregation
  | LogicalJoin logical_join
  | LogicalSort "by_items list"
  | LogicalLimit logical_limit
  | LogicalTopN logical_topn
  | DataSource nat
  | LogicalTableScan logical_table_scan
  | LogicalIndexScan logical_index_scan
  | TiKVSingleGather nat
  | LogicalTableDual schema

section \<open>The memo as an explicit store\<close>

text \<open>
  Modelled from the spec: the memo package (Group, GroupExpr, ExprIter and the construction
  primitives "new group expr", "new group with schema", "set children", "set engine tier")
  is not part of the file under verification. Following the data model of the spec, the memo
  is an arena: operator payloads, GroupExprs and Groups live in three growing lists and are
  addressed by their index, so that two GroupExprs sharing one payload pointer share one
  address, and an assignment through a pointer is an update of the store.
\<close>

type_synonym addr = nat

datatype engine_type = EngineTiDB | EngineTiKV

record group_expr =
  ExprNode :: addr
  Children :: "addr list"
  Group :: "addr option"

record group =
  Equivalents :: "addr list"
  Prop_Schema :: schema
  EngineType :: engine_type

record memo_store =
  plans :: "plan list"
  gexprs :: "group_expr list"
  groups :: "group list"

text \<open>
  Modelled from the spec: an ExprIter, one binding of a pattern. It binds a pattern position
  to a Group and, unless the position is the wildcard "Any", to one GroupExpr of that Group;
  it has one ExprIter per matched child.
\<close>

datatype expr_iter =
  ExprIter (it_Group: addr) (it_Element: "addr option") (it_Children: "expr_iter list")

text \<open>
  Reading through a pointer. Go is memory safe, so a dangling address cannot occur; an index
  past the end of a slice, a failed type assertion and a nil dereference panic. A panic is
  the value \<open>None\<close>.
\<close>

definition at_index :: "'a list \<Rightarrow> nat \<Rightarrow> 'a option" where
  "at_index xs i = (if i < length xs then Some (xs ! i) else None)"

definition getPlan :: "memo_store \<Rightarrow> addr \<Rightarrow> plan option" where
  "getPlan s a = at_index (plans s) a"

definition getGroupExpr :: "memo_store \<Rightarrow> addr \<Rightarrow> group_expr option" where
  "getGroupExpr s a = at_index (gexprs s) a"

definition getGroup :: "memo_store \<Rightarrow> addr \<Rightarrow> group option" where
  "getGroup s a = at_index (groups s) a"

text \<open>
  Modelled from the spec: \<^verbatim>\<open>ExprIter.GetExpr\<close>, the GroupExpr a binding refers to (a nil
  dereference at a wildcard position).
\<close>

definition GetExpr :: "memo_store \<Rightarrow> expr_iter \<Rightarrow> (addr \<times> group_expr) option" where
  "GetExpr s iter =
     (case it_Element iter of
        None \<Rightarrow> None
      | Some a \<Rightarrow> (case getGroupExpr s a of None \<Rightarrow> None | Some e \<Rightarrow> Some (a, e)))"

text \<open>
  Modelled from the spec: \<^verbatim>\<open>GroupExpr.Schema()\<close>, also written
  \<^verbatim>\<open>expr.Group.Prop.Schema\<close>, is the schema of the Group that owns the GroupExpr.
\<close>

definition exprGroupSchema :: "memo_store \<Rightarrow> group_expr \<Rightarrow> schema option" where
  "exprGroupSchema s e =
     (case Group e of
        None \<Rightarrow> None
      | Some g \<Rightarrow> map_option Prop_Schema (getGroup s g))"

text \<open>
  Allocation appends to the arena and returns the new address. \<open>newPlan\<close> is the
  allocation of an operator by a composite literal followed by \<^verbatim>\<open>Init\<close>, and
  \<open>setPlan\<close> an assignment to fields of an operator through its pointer.
\<close>

definition newPlan :: "plan \<Rightarrow> memo_store \<Rightarrow> addr \<times> memo_store" where
  "newPlan p s = (length (plans s), s\<lparr>plans := plans s @ [p]\<rparr>)"

definition setPlan :: "addr \<Rightarrow> plan \<Rightarrow> memo_store \<Rightarrow> memo_store" where
  "setPlan a p s = s\<lparr>plans := (plans s)[a := p]\<rparr>"

text \<open>
  Modelled from the spec: the construction primitives of the memo. "New group expr" makes a
  GroupExpr for an operator, with no children and no owning Group. "Set children" assigns
  the child Groups of a GroupExpr. "New group with schema" makes a Group with the given
  schema whose only member is the given GroupExpr, and records the Group as the owner of
  that GroupExpr; the new Group starts on the coordinator tier. "Set engine tier" assigns
  the tier of a Group.
\<close>

definition NewGroupExpr :: "addr \<Rightarrow> memo_store \<Rightarrow> addr \<times> memo_store" where
  "NewGroupExpr node s =
     (length (gexprs s),
      s\<lparr>gexprs := gexprs s @ [\<lparr>ExprNode = node, Children = [], Group = None\<rparr>]\<rparr>)"

definition SetChildren :: "addr \<Rightarrow> addr list \<Rightarrow> memo_store \<Rightarrow> memo_store" where
  "SetChildren e cs s = s\<lparr>gexprs := (gexprs s)[e := (gexprs s ! e)\<lparr>Children := cs\<rparr>]\<rparr>"

definition NewGroupWithSchema :: "addr \<Rightarrow> schema \<Rightarrow> memo_store \<Rightarrow> addr \<times> memo_store" where
  "NewGroupWithSchema e sch s =
     (let g = length (groups s) in
      (g, s\<lparr>groups := groups s @
                 [\<lparr>Equivalents = [e], Prop_Schema = sch, EngineType = EngineTiDB\<rparr>],
             gexprs := (gexprs s)[e := (gexprs s ! e)\<lparr>Group := Some g\<rparr>]\<rparr>))"

definition SetEngineType :: "addr \<Rightarrow> engine_type \<Rightarrow> memo_store \<Rightarrow> memo_store" where
  "SetEngineType g t s = s\<lparr>groups := (groups s)[g := (groups s ! g)\<lparr>EngineType := t\<rparr>]\<rparr>"

section \<open>The result of a rule\<close>

text \<open>
  \<^verbatim>\<open>OnTransform\<close> returns \<^verbatim>\<open>(newExprs, eraseOld, eraseAll, err)\<close>. The model returns the
  store after the call as well; a panic is \<open>None\<close>.
\<close>

datatype error = DataError nat

record transform_result =
  newExprs :: "addr list"
  eraseOld :: bool
  eraseAll :: bool
  err :: "error option"

definition no_rewrite :: transform_result where
  "no_rewrite = \<lparr>newExprs = [], eraseOld = False, eraseAll = False, err = None\<rparr>"

definition rewrite :: "addr list \<Rightarrow> bool \<Rightarrow> bool \<Rightarrow> transform_result" where
  "rewrite es old all = \<lparr>newExprs = es, eraseOld = old, eraseAll = all, err = None\<rparr>"

text \<open>\<^verbatim>\<open>baseRule.Match\<close>: every binding of the pattern is accepted.\<close>

definition baseRule_Match :: "memo_store \<Rightarrow> expr_iter \<Rightarrow> bool option" where
  "baseRule_Match s expr = Some True"

text \<open>\<^verbatim>\<open>old.Children[0].GetExpr()\<close>: the GroupExpr bound at the first child of a binding.\<close>

definition childExpr :: "memo_store \<Rightarrow> expr_iter \<Rightarrow> (expr_iter \<times> addr \<times> group_expr) option" where
  "childExpr s old =
     do {
       c \<leftarrow> at_index (it_Children old) 0;
       (a, e) \<leftarrow> GetExpr s c;
       Some (c, a, e)
     }"

section \<open>Collaborators of other packages\<close>

text \<open>
  The rules call helper functions of the packages \<^verbatim>\<open>expression\<close>, \<^verbatim>\<open>ranger\<close>,
  \<^verbatim>\<open>aggregation\<close> and \<^verbatim>\<open>plannercore\<close>, none of which is part of the file under
  verification. They are parameters of the model: a record of functions, already applied to
  the session context (which every operator of one statement shares). A theorem that needs
  a property of a helper states it as a hypothesis.
\<close>

record detach_range_result =
  res_AccessConds :: "expression list"
  res_RemainedConds :: "expression list"
  res_Ranges :: "nat list"
  res_EqCondCount :: int

record collab =
  DetachCondAndBuildRangeForIndex ::
    "expression list \<Rightarrow> column list \<Rightarrow> int list \<Rightarrow> error + detach_range_result"
  HasAssignSetVarFunc :: "expression \<Rightarrow> bool"
  ExprsHasSideEffects :: "expression list \<Rightarrow> bool"
  ColumnSubstitute :: "expression \<Rightarrow> schema \<Rightarrow> expression list \<Rightarrow> expression"
  ExtractFiltersFromDNFs :: "expression list \<Rightarrow> expression list"
  PropagateConstant :: "expression list \<Rightarrow> expression list"
  Conds2TableDual :: "logical_join \<Rightarrow> expression list \<Rightarrow> schema option"
  ExtractOnCondition ::
    "logical_join \<Rightarrow> expression list \<Rightarrow> schema \<Rightarrow> schema \<Rightarrow> bool \<Rightarrow> bool \<Rightarrow>
       scalar_function list \<times> expression list \<times> expression list \<times> expression list"
  RemoveDupExprs :: "expression list \<Rightarrow> expression list"
  CheckAggCanPushCop :: "agg_func_desc list \<Rightarrow> expression list \<Rightarrow> bool"
  BuildFinalModeAggregation ::
    "agg_func_desc list \<Rightarrow> expression list \<Rightarrow> schema \<Rightarrow>
       agg_func_desc list \<times> expression list \<times> schema"
  RemoveUnnecessaryFirstRow ::
    "agg_func_desc list \<Rightarrow> expression list \<Rightarrow> agg_func_desc list \<Rightarrow> expression list \<Rightarrow>
       schema \<Rightarrow> agg_func_desc list"
  ResolveExprAndReplace :: "expression \<Rightarrow> (column \<rightharpoonup> column) \<Rightarrow> expression"
  ReplaceColumnOfExpr :: "expression \<Rightarrow> logical_projection \<Rightarrow> schema \<Rightarrow> expression"

text \<open>
  A loop of the form \<^verbatim>\<open>for _, x := range xs { if p(x) { return ... } }\<close>: whether the
  early return is taken.
\<close>

fun returns_early :: "('a \<Rightarrow> bool) \<Rightarrow> 'a list \<Rightarrow> bool" where
  "returns_early p [] = False"
| "returns_early p (x # xs) = (if p x then True else returns_early p xs)"

section \<open>TransformLimitToTopN\<close>


section \<open>PushSelDownIndexScan\<close>

text \<open>
  Modelled from the spec: \<^verbatim>\<open>Expression.Equal\<close> of the expression package decides whether
  two access conditions are identical; expressions of the model are compared structurally.
  The loop compares position by position and stops at the first difference.
\<close>

definition sameConds :: "expression list \<Rightarrow> expression list \<Rightarrow> bool" where
  "sameConds new_conds old_conds = (\<not> returns_early (\<lambda>(x, y). \<not> (x = y)) (zip new_conds old_conds))"

definition PushSelDownIndexScan_OnTransform ::
  "collab \<Rightarrow> memo_store \<Rightarrow> expr_iter \<Rightarrow> (transform_result \<times> memo_store) option" where
  "PushSelDownIndexScan_OnTransform c s old =
     do {
       (oa, oe) \<leftarrow> GetExpr s old;
       node \<leftarrow> getPlan s (ExprNode oe);
       (ci, ca, ce) \<leftarrow> childExpr s old;
       cnode \<leftarrow> getPlan s (ExprNode ce);
       (case (node, cnode) of
          (LogicalSelection sel_Conditions, LogicalIndexScan is) \<Rightarrow>
            if length (is_IdxCols is) = 0 then Some (no_rewrite, s)
            else
              let conditions =
                    (if is_AccessConds is \<noteq> [] then sel_Conditions @ is_AccessConds is
                     else sel_Conditions)
              in (case DetachCondAndBuildRangeForIndex c conditions (is_IdxCols is) (is_IdxColLens is) of
                    Inl e \<Rightarrow> Some (\<lparr>newExprs = [], eraseOld = False, eraseAll = False, err = Some e\<rparr>, s)
                  | Inr res \<Rightarrow>
                      if length (res_AccessConds res) = length (is_AccessConds is)
                         \<and> sameConds (res_AccessConds res) (is_AccessConds is)
                      then Some (no_rewrite, s)
                      else
                        let (newIs, s1) = newPlan (LogicalIndexScan
                              \<lparr>is_Source = is_Source is,
                               is_IsDoubleRead = is_IsDoubleRead is,
                               is_EqCondCount = res_EqCondCount res,
                               is_AccessConds = res_AccessConds res,
                               is_Ranges = res_Ranges res,
                               is_Index = is_Index is,
                               is_Columns = is_Columns is,
                               is_FullIdxCols = is_FullIdxCols is,
                               is_FullIdxColLens = is_FullIdxColLens is,
                               is_IdxCols = is_IdxCols is,
                               is_IdxColLens = is_IdxColLens is\<rparr>) s;
                            (isExpr, s2) = NewGroupExpr newIs s1
                        in if length (res_RemainedConds res) = 0
                           then Some (rewrite [isExpr] True False, s2)
                           else
                             do {
                               sch \<leftarrow> exprGroupSchema s2 ce;
                               let (isGroup, s3) = NewGroupWithSchema isExpr sch s2;
                               let (newSel, s4) = newPlan (LogicalSelection (res_RemainedConds res)) s3;
                               let (selExpr, s5) = NewGroupExpr newSel s4;
                               let s6 = SetChildren selExpr [isGroup] s5;
                               Some (rewrite [selExpr] True False, s6)
                             })
        | _ \<Rightarrow> None)
     }"

section \<open>PushAggDownGather\<close>

definition PushAggDownGather_Match :: "collab \<Rightarrow> memo_store \<Rightarrow> expr_iter \<Rightarrow> bool option" where
  "PushAggDownGather_Match c s expr =
     do {
       (a, e) \<leftarrow> GetExpr s expr;
       node \<leftarrow> getPlan s (ExprNode e);
       (case node of
          LogicalAggregation agg \<Rightarrow>
            Some (if returns_early (\<lambda>aggFunc. agg_Mode aggFunc \<noteq> CompleteMode) (AggFuncs agg)
                  then False
                  else CheckAggCanPushCop c (AggFuncs agg) (GroupByItems agg))
        | _ \<Rightarrow> None)
     }"

definition PushAggDownGather_OnTransform ::
  "collab \<Rightarrow> memo_store \<Rightarrow> expr_iter \<Rightarrow> (transform_result \<times> memo_store) option" where
  "PushAggDownGather_OnTransform c s old =
     do {
       (oa, oe) \<leftarrow> GetExpr s old;
       node \<leftarrow> getPlan s (ExprNode oe);
       aggSchema \<leftarrow> exprGroupSchema s oe;
       (ci, ca, ce) \<leftarrow> childExpr s old;
       cnode \<leftarrow> getPlan s (ExprNode ce);
       childGroup \<leftarrow> at_index (Children ce) 0;
       (case (node, cnode) of
          (LogicalAggregation agg, TiKVSingleGather src) \<Rightarrow>
            do {
              let partialAggFuncs =
                    map (\<lambda>aggFunc. \<lparr>agg_Name = agg_Name aggFunc, agg_Args = agg_Args aggFunc,
                                     agg_Mode = Partial1Mode, agg_RetTp = agg_RetTp aggFunc\<rparr>)
                        (AggFuncs agg);
              let partialGbyItems = GroupByItems agg;
              let (finalAggFuncs, finalGbyItems, partialSchema) =
                    BuildFinalModeAggregation c partialAggFuncs partialGbyItems aggSchema;
              let partialAggFuncs' =
                    RemoveUnnecessaryFirstRow c finalAggFuncs finalGbyItems
                      partialAggFuncs partialGbyItems partialSchema;
              let (partialAgg, s1) = newPlan (LogicalAggregation
                    \<lparr>AggFuncs = partialAggFuncs', GroupByItems = partialGbyItems\<rparr>) s;
              let (finalAgg, s2) = newPlan (LogicalAggregation
                    \<lparr>AggFuncs = finalAggFuncs, GroupByItems = finalGbyItems\<rparr>) s1;
              let (partialAggExpr, s3) = NewGroupExpr partialAgg s2;
              let s4 = SetChildren partialAggExpr [childGroup] s3;
              cg \<leftarrow> getGroup s4 childGroup;
              let (partialAggGroup, s5) = NewGroupWithSchema partialAggExpr partialSchema s4;
              let s6 = SetEngineType partialAggGroup (EngineType cg) s5;
              let (gatherExpr, s7) = NewGroupExpr (ExprNode ce) s6;
              let s8 = SetChildren gatherExpr [partialAggGroup] s7;
              let (gatherGroup, s9) = NewGroupWithSchema gatherExpr partialSchema s8;
              let (finalAggExpr, s10) = NewGroupExpr finalAgg s9;
              let s11 = SetChildren finalAggExpr [gatherGroup] s10;
              Some (rewrite [finalAggExpr] False False, s11)
            }
        | _ \<Rightarrow> None)
     }"

section \<open>PushSelDownJoin\<close>

definition buildChildSelectionGroup ::
  "expression list \<Rightarrow> addr \<Rightarrow> memo_store \<Rightarrow> (addr \<times> memo_store) option" where
  "buildChildSelectionGroup conditions childGroup s =
     (if length conditions = 0 then Some (childGroup, s)
      else
        do {
          let (newSel, s1) = newPlan (LogicalSelection conditions) s;
          let (groupExpr, s2) = NewGroupExpr newSel s1;
          let s3 = SetChildren groupExpr [childGroup] s2;
          cg \<leftarrow> getGroup s3 childGroup;
          let (newChild, s4) = NewGroupWithSchema groupExpr (Prop_Schema cg) s3;
          Some (newChild, s4)
        })"

text \<open>
  The loop over \<^verbatim>\<open>join.EqualConditions\<close> that appends to the join keys: each equal
  condition must have a column as its first and as its second argument, or the type
  assertion (or the index) panics.
\<close>

fun appendJoinKeys :: "scalar_function list \<Rightarrow> logical_join \<Rightarrow> logical_join option" where
  "appendJoinKeys [] join = Some join"
| "appendJoinKeys (eqCond # rest) join =
     (case GetArgs eqCond of
        Column l # Column r # _ \<Rightarrow>
          appendJoinKeys rest
            (join\<lparr>LeftJoinKeys := LeftJoinKeys join @ [l], RightJoinKeys := RightJoinKeys join @ [r]\<rparr>)
      | _ \<Rightarrow> None)"

definition PushSelDownJoin_OnTransform ::
  "collab \<Rightarrow> memo_store \<Rightarrow> expr_iter \<Rightarrow> (transform_result \<times> memo_store) option" where
  "PushSelDownJoin_OnTransform c s old =
     do {
       (oa, oe) \<leftarrow> GetExpr s old;
       node \<leftarrow> getPlan s (ExprNode oe);
       (ci, ja, joinExpr) \<leftarrow> childExpr s old;
       jnode \<leftarrow> getPlan s (ExprNode joinExpr);
       (case (node, jnode) of
          (LogicalSelection sel_Conditions, LogicalJoin join) \<Rightarrow>
            do {
              leftGroup \<leftarrow> at_index (Children joinExpr) 0;
              rightGroup \<leftarrow> at_index (Children joinExpr) 1;
              switch \<leftarrow>
                (case JoinType join of
                   InnerJoin \<Rightarrow>
                     do {
                       let tempCond = LeftConditions join @ RightConditions join
                             @ ScalarFuncs2Exprs (EqualConditions join) @ OtherConditions join
                             @ sel_Conditions;
                       let tempCond = ExtractFiltersFromDNFs c tempCond;
                       let tempCond = PropagateConstant c tempCond;
                       (case Conds2TableDual c join tempCond of
                          Some dual \<Rightarrow>
                            let (d, s1) = newPlan (LogicalTableDual dual) s;
                                (dualExpr, s2) = NewGroupExpr d s1
                            in Some (Inl (rewrite [dualExpr] False True, s2))
                        | None \<Rightarrow>
                            do {
                              lg \<leftarrow> getGroup s leftGroup;
                              rg \<leftarrow> getGroup s rightGroup;
                              let (equalCond, leftPushCond, rightPushCond, otherCond) =
                                    ExtractOnCondition c join tempCond
                                      (Prop_Schema lg) (Prop_Schema rg) True True;
                              Some (Inr (join\<lparr>LeftConditions := [], RightConditions := [],
                                           EqualConditions := equalCond,
                                           OtherConditions := otherCond\<rparr>,
                                         leftPushCond, rightPushCond))
                            })
                     }
                 | _ \<Rightarrow> Some (Inr (join, [], [])));
              (case switch of
                 Inl returned \<Rightarrow> Some returned
               | Inr (join1, leftCond, rightCond) \<Rightarrow>
                   do {
                     let leftCond = RemoveDupExprs c leftCond;
                     let rightCond = RemoveDupExprs c rightCond;
                     join2 \<leftarrow> appendJoinKeys (EqualConditions join1) join1;
                     let s1 = setPlan (ExprNode joinExpr) (LogicalJoin join2) s;
                     (leftGroup', s2) \<leftarrow> buildChildSelectionGroup leftCond leftGroup s1;
                     (rightGroup', s3) \<leftarrow> buildChildSelectionGroup rightCond rightGroup s2;
                     let (newJoinExpr, s4) = NewGroupExpr (ExprNode joinExpr) s3;
                     let s5 = SetChildren newJoinExpr [leftGroup', rightGroup'] s4;
                     Some (rewrite [newJoinExpr] True False, s5)
                   })
            }
        | _ \<Rightarrow> None)
     }"

section \<open>MergeAdjacentProjection\<close>

text \<open>
  The loop that fills the \<^verbatim>\<open>replace\<close> map: for the \<open>i\<close>-th column of the child Group's
  schema, \<^verbatim>\<open>child.Exprs[i]\<close> is read (a panic when the projection has fewer expressions)
  and, when it is a column, recorded as the origin of the schema column.
\<close>

fun buildReplace ::
  "schema \<Rightarrow> expression list \<Rightarrow> nat \<Rightarrow> (column \<rightharpoonup> column) \<Rightarrow> (column \<rightharpoonup> column) option" where
  "buildReplace [] exprs i replace = Some replace"
| "buildReplace (col # cols) exprs i replace =
     (case at_index exprs i of
        None \<Rightarrow> None
      | Some (Column colOrigin) \<Rightarrow> buildReplace cols exprs (Suc i) (replace(col \<mapsto> colOrigin))
      | Some _ \<Rightarrow> buildReplace cols exprs (Suc i) replace)"

definition MergeAdjacentProjection_OnTransform ::
  "collab \<Rightarrow> memo_store \<Rightarrow> expr_iter \<Rightarrow> (transform_result \<times> memo_store) option" where
  "MergeAdjacentProjection_OnTransform c s old =
     do {
       (oa, oe) \<leftarrow> GetExpr s old;
       node \<leftarrow> getPlan s (ExprNode oe);
       (ci, ca, ce) \<leftarrow> childExpr s old;
       cnode \<leftarrow> getPlan s (ExprNode ce);
       (case (node, cnode) of
          (LogicalProjection proj, LogicalProjection child) \<Rightarrow>
            if ExprsHasSideEffects c (Exprs child) then Some (no_rewrite, s)
            else
              do {
                childGroup \<leftarrow> getGroup s (it_Group ci);
                replace \<leftarrow> buildReplace (Prop_Schema childGroup) (Exprs child) 0 Map.empty;
                oldSchema \<leftarrow> exprGroupSchema s oe;
                let newProjExprs =
                      map (\<lambda>expr. ReplaceColumnOfExpr c (ResolveExprAndReplace c expr replace)
                                     child (Prop_Schema childGroup))
                          (Exprs proj);
                let (newProj, s1) = newPlan (LogicalProjection
                      \<lparr>Exprs = newProjExprs, proj_Schema = oldSchema\<rparr>) s;
                let (newProjExpr, s2) = NewGroupExpr newProj s1;
                grandChild \<leftarrow> at_index (Children ce) 0;
                let s3 = SetChildren newProjExpr [grandChild] s2;
                Some (rewrite [newProjExpr] True False, s3)
              }
        | _ \<Rightarrow> None)
     }"

section \<open>PushTopNDownProjection\<close>

definition PushTopNDownProjection_Match :: "collab \<Rightarrow> memo_store \<Rightarrow> expr_iter \<Rightarrow> bool option" where
  "PushTopNDownProjection_Match c s expr =
     do {
       (ci, ca, ce) \<leftarrow> childExpr s expr;
       cnode \<leftarrow> getPlan s (ExprNode ce);
       (case cnode of
          LogicalProjection proj \<Rightarrow>
            Some (if returns_early (HasAssignSetVarFunc c) (Exprs proj) then False else True)
        | _ \<Rightarrow> None)
     }"

text \<open>
  The loop "remove meaningless constant sort items" runs \<open>i\<close> from the last index down to
  0 over \<^verbatim>\<open>newTopN.ByItems\<close>, a slice whose length equals its capacity. At a constant it
  evaluates \<^verbatim>\<open>append(newTopN.ByItems[:i], newTopN.ByItems[i+1:]...)\<close>: the prefix has
  spare capacity, so the append writes into the backing array of \<^verbatim>\<open>newTopN.ByItems\<close>
  (the elements after \<open>i\<close> move one place to the left, the last place keeps its element)
  and yields a slice one element shorter. The source assigns that slice to
  \<^verbatim>\<open>topN.ByItems\<close>, the field of the old operator; the slice header of
  \<^verbatim>\<open>newTopN.ByItems\<close> is never assigned, so it keeps its length. The state of the loop is
  the backing array and the last value assigned to \<^verbatim>\<open>topN.ByItems\<close>, if any.
\<close>

fun removeConstItems ::
  "nat \<Rightarrow> by_items list \<Rightarrow> by_items list option \<Rightarrow> (by_items list \<times> by_items list option) option" where
  "removeConstItems 0 arr assigned = Some (arr, assigned)"
| "removeConstItems (Suc i) arr assigned =
     (case at_index arr i of
        None \<Rightarrow> None
      | Some item \<Rightarrow>
          (case by_Expr item of
             Constant d \<Rightarrow>
               (let arr' = take i arr @ drop (Suc i) arr @ [last arr]
                in removeConstItems i arr' (Some (butlast arr')))
           | _ \<Rightarrow> removeConstItems i arr assigned))"

definition PushTopNDownProjection_OnTransform ::
  "collab \<Rightarrow> memo_store \<Rightarrow> expr_iter \<Rightarrow> (transform_result \<times> memo_store) option" where
  "PushTopNDownProjection_OnTransform c s old =
     do {
       (oa, oe) \<leftarrow> GetExpr s old;
       node \<leftarrow> getPlan s (ExprNode oe);
       (ci, ca, ce) \<leftarrow> childExpr s old;
       cnode \<leftarrow> getPlan s (ExprNode ce);
       childGroup \<leftarrow> at_index (Children ce) 0;
       (case (node, cnode) of
          (LogicalTopN topN, LogicalProjection proj) \<Rightarrow>
            do {
              items \<leftarrow>
                (if topn_ByItems topN = [] then Some []
                 else
                   do {
                     projGroup \<leftarrow> getGroup s (it_Group ci);
                     Some (map (\<lambda>by. \<lparr>by_Expr = ColumnSubstitute c (by_Expr by)
                                                   (Prop_Schema projGroup) (Exprs proj),
                                        by_Desc = by_Desc by\<rparr>)
                               (topn_ByItems topN))
                   });
              (arr, assigned) \<leftarrow> removeConstItems (length items) items None;
              let s1 = (case assigned of
                          None \<Rightarrow> s
                        | Some shorter \<Rightarrow>
                            setPlan (ExprNode oe) (LogicalTopN (topN\<lparr>topn_ByItems := shorter\<rparr>)) s);
              let (newTopN, s2) = newPlan (LogicalTopN
                    \<lparr>topn_ByItems = arr, topn_Offset = topn_Offset topN,
                     topn_Count = topn_Count topN\<rparr>) s1;
              let (projExpr, s3) = NewGroupExpr (ExprNode ce) s2;
              let (topNExpr, s4) = NewGroupExpr newTopN s3;
              let s5 = SetChildren topNExpr [childGroup] s4;
              cg \<leftarrow> getGroup s5 childGroup;
              let (topNGroup, s6) = NewGroupWithSchema topNExpr (Prop_Schema cg) s5;
              let s7 = SetChildren projExpr [topNGroup] s6;
              Some (rewrite [projExpr] True False, s7)
            }
        | _ \<Rightarrow> None)
     }"

section \<open>MergeAggregationProjection\<close>

definition MergeAggregationProjection_Match :: "collab \<Rightarrow> memo_store \<Rightarrow> expr_iter \<Rightarrow> bool option" where
  "MergeAggregationProjection_Match c s old =
     do {
       (ci, ca, ce) \<leftarrow> childExpr s old;
       cnode \<leftarrow> getPlan s (ExprNode ce);
       (case cnode of
          LogicalProjection proj \<Rightarrow>
            Some (if ExprsHasSideEffects c (Exprs proj) then False else True)
        | _ \<Rightarrow> None)
     }"

definition MergeAggregationProjection_OnTransform ::
  "collab \<Rightarrow> memo_store \<Rightarrow> expr_iter \<Rightarrow> (transform_result \<times> memo_store) option" where
  "MergeAggregationProjection_OnTransform c s old =
     do {
       (oa, oe) \<leftarrow> GetExpr s old;
       node \<leftarrow> getPlan s (ExprNode oe);
       (ci, ca, ce) \<leftarrow> childExpr s old;
       cnode \<leftarrow> getPlan s (ExprNode ce);
       (case (node, cnode) of
          (LogicalAggregation aggr, LogicalProjection child) \<Rightarrow>
            do {
              childGroup \<leftarrow> getGroup s (it_Group ci);
              replace \<leftarrow> buildReplace (Prop_Schema childGroup) (Exprs child) 0 Map.empty;
              let substitute =
                    (\<lambda>expr. ReplaceColumnOfExpr c (ResolveExprAndReplace c expr replace)
                               child (Prop_Schema childGroup));
              let newAggFuncs =
                    map (\<lambda>agg. agg\<lparr>agg_Args := map substitute (agg_Args agg)\<rparr>) (AggFuncs aggr);
              let newGroupByItems = map substitute (GroupByItems aggr);
              let (newAggr, s1) = newPlan (LogicalAggregation
                    \<lparr>AggFuncs = newAggFuncs, GroupByItems = newGroupByItems\<rparr>) s;
              let (newAggrExpr, s2) = NewGroupExpr newAggr s1;
              grandChild \<leftarrow> at_index (Children ce) 0;
              let s3 = SetChildren newAggrExpr [grandChild] s2;
              Some (rewrite [newAggrExpr] True False, s3)
            }
        | _ \<Rightarrow> None)
     }"

section \<open>Concrete memos and a concrete instance of the collaborators\<close>

text \<open>
  To run the rules on concrete inputs, the helper functions need an instance. The one below
  is deliberately small: predicates of the form \<open>eq(column, constant)\<close> on an index column
  are access conditions, a scalar function named \<open>setvar\<close> assigns a session variable,
  column substitution replaces a schema column by the expression at its position, and the
  on-condition extraction sorts predicates by the side their columns come from.
\<close>

fun hasFunc :: "string \<Rightarrow> expression \<Rightarrow> bool" where
  "hasFunc n (Column col) = False"
| "hasFunc n (Constant d) = False"
| "hasFunc n (ScalarFunction f args) = (f = n \<or> list_ex (hasFunc n) args)"

fun substituteColumns :: "schema \<Rightarrow> expression list \<Rightarrow> expression \<Rightarrow> expression" where
  "substituteColumns sch es (Column col) =
     (case map_of (zip sch es) col of None \<Rightarrow> Column col | Some e \<Rightarrow> e)"
| "substituteColumns sch es (Constant d) = Constant d"
| "substituteColumns sch es (ScalarFunction f args) =
     ScalarFunction f (map (substituteColumns sch es) args)"

fun columnsOf :: "expression \<Rightarrow> column list" where
  "columnsOf (Column col) = [col]"
| "columnsOf (Constant d) = []"
| "columnsOf (ScalarFunction f args) = concat (map columnsOf args)"

fun isAccessCond :: "column list \<Rightarrow> expression \<Rightarrow> bool" where
  "isAccessCond cols (ScalarFunction f [Column col, Constant d]) = (f = ''eq'' \<and> List.member cols col)"
| "isAccessCond cols e = False"

fun equalCondOf :: "schema \<Rightarrow> schema \<Rightarrow> expression \<Rightarrow> scalar_function list" where
  "equalCondOf l r (ScalarFunction f [Column a, Column b]) =
     (if f = ''eq'' \<and> List.member l a \<and> List.member r b then [(f, [Column a, Column b])] else [])"
| "equalCondOf l r e = []"

definition onlyColumnsOf :: "schema \<Rightarrow> expression \<Rightarrow> bool" where
  "onlyColumnsOf sch e = (columnsOf e \<noteq> [] \<and> list_all (List.member sch) (columnsOf e))"

definition example_ExtractOnCondition ::
  "logical_join \<Rightarrow> expression list \<Rightarrow> schema \<Rightarrow> schema \<Rightarrow> bool \<Rightarrow> bool \<Rightarrow>
     scalar_function list \<times> expression list \<times> expression list \<times> expression list" where
  "example_ExtractOnCondition join conds l r deriveLeft deriveRight =
     (concat (map (equalCondOf l r) conds),
      filter (onlyColumnsOf l) conds,
      filter (onlyColumnsOf r) conds,
      filter (\<lambda>e. equalCondOf l r e = [] \<and> \<not> onlyColumnsOf l e \<and> \<not> onlyColumnsOf r e) conds)"

definition example_Conds2TableDual :: "logical_join \<Rightarrow> expression list \<Rightarrow> schema option" where
  "example_Conds2TableDual join conds =
     (if conds = [Constant None] \<or> conds = [Constant (Some 0)] then Some [] else None)"

definition example_collab :: collab where
  "example_collab =
     \<lparr>DetachCondAndBuildRangeForIndex =
        (\<lambda>conds cols lens.
           Inr \<lparr>res_AccessConds = filter (isAccessCond cols) conds,
                res_RemainedConds = filter (\<lambda>e. \<not> isAccessCond cols e) conds,
                res_Ranges = [],
                res_EqCondCount = int (length (filter (isAccessCond cols) conds))\<rparr>),
      HasAssignSetVarFunc = hasFunc ''setvar'',
      ExprsHasSideEffects = list_ex (hasFunc ''setvar''),
      ColumnSubstitute = (\<lambda>e sch es. substituteColumns sch es e),
      ExtractFiltersFromDNFs = (\<lambda>conds. conds),
      PropagateConstant = (\<lambda>conds. conds),
      Conds2TableDual = example_Conds2TableDual,
      ExtractOnCondition = example_ExtractOnCondition,
      RemoveDupExprs = remdups,
      CheckAggCanPushCop = (\<lambda>funcs gby. True),
      BuildFinalModeAggregation =
        (\<lambda>funcs gby sch. (map (\<lambda>f. f\<lparr>agg_Mode := FinalMode\<rparr>) funcs, gby, sch)),
      RemoveUnnecessaryFirstRow = (\<lambda>finalFuncs finalGby funcs gby sch. funcs),
      ResolveExprAndReplace = (\<lambda>e replace. e),
      ReplaceColumnOfExpr = (\<lambda>e proj sch. e)\<rparr>"

text \<open>
  A memo holding the chain \<open>root -> child -> table scan\<close>, one Group per operator, and the
  binding of a two-level pattern at its root.
\<close>

definition chain_memo :: "plan \<Rightarrow> schema \<Rightarrow> plan \<Rightarrow> schema \<Rightarrow> schema \<Rightarrow> memo_store" where
  "chain_memo root rootSchema child childSchema scanSchema =
     \<lparr>plans = [root, child, LogicalTableScan \<lparr>ts_Source = 0, ts_Handle = None, ts_AccessConds = []\<rparr>],
      gexprs = [\<lparr>ExprNode = 0, Children = [1], Group = Some 0\<rparr>,
                \<lparr>ExprNode = 1, Children = [2], Group = Some 1\<rparr>,
                \<lparr>ExprNode = 2, Children = [], Group = Some 2\<rparr>],
      groups = [\<lparr>Equivalents = [0], Prop_Schema = rootSchema, EngineType = EngineTiDB\<rparr>,
                \<lparr>Equivalents = [1], Prop_Schema = childSchema, EngineType = EngineTiDB\<rparr>,
                \<lparr>Equivalents = [2], Prop_Schema = scanSchema, EngineType = EngineTiKV\<rparr>]\<rparr>"

definition chain_binding :: expr_iter where
  "chain_binding = ExprIter 0 (Some 0) [ExprIter 1 (Some 1) []]"

text \<open>
  A memo holding \<open>Selection -> Join\<close> over two table scans; the left scan produces column 1,
  the right scan column 2.
\<close>

definition join_memo :: "expression list \<Rightarrow> logical_join \<Rightarrow> memo_store" where
  "join_memo selConds join =
     \<lparr>plans = [LogicalSelection selConds, LogicalJoin join,
               LogicalTableScan \<lparr>ts_Source = 0, ts_Handle = None, ts_AccessConds = []\<rparr>,
               LogicalTableScan \<lparr>ts_Source = 1, ts_Handle = None, ts_AccessConds = []\<rparr>],
      gexprs = [\<lparr>ExprNode = 0, Children = [1], Group = Some 0\<rparr>,
                \<lparr>ExprNode = 1, Children = [2, 3], Group = Some 1\<rparr>,
                \<lparr>ExprNode = 2, Children = [], Group = Some 2\<rparr>,
                \<lparr>ExprNode = 3, Children = [], Group = Some 3\<rparr>],
      groups = [\<lparr>Equivalents = [0], Prop_Schema = [1, 2], EngineType = EngineTiDB\<rparr>,
                \<lparr>Equivalents = [1], Prop_Schema = [1, 2], EngineType = EngineTiDB\<rparr>,
                \<lparr>Equivalents = [2], Prop_Schema = [1], EngineType = EngineTiDB\<rparr>,
                \<lparr>Equivalents = [3], Prop_Schema = [2], EngineType = EngineTiDB\<rparr>]\<rparr>"

definition plain_join :: "join_type \<Rightarrow> logical_join" where
  "plain_join t =
     \<lparr>JoinType = t, LeftConditions = [], RightConditions = [], EqualConditions = [],
      OtherConditions = [], LeftJoinKeys = [], RightJoinKeys = []\<rparr>"

text \<open>
  A memo holding \<open>Selection -> IndexScan\<close> over an index on column 1; the scan may already
  carry access conditions.
\<close>

definition index_memo :: "expression list \<Rightarrow> expression list \<Rightarrow> memo_store" where
  "index_memo selConds accessConds =
     \<lparr>plans = [LogicalSelection selConds,
               LogicalIndexScan
                 \<lparr>is_Source = 0, is_IsDoubleRead = False, is_EqCondCount = 0,
                  is_AccessConds = accessConds, is_Ranges = [], is_Index = 0,
                  is_Columns = [1, 2], is_FullIdxCols = [1], is_FullIdxColLens = [- 1],
                  is_IdxCols = [1], is_IdxColLens = [- 1]\<rparr>],
      gexprs = [\<lparr>ExprNode = 0, Children = [1], Group = Some 0\<rparr>,
                \<lparr>ExprNode = 1, Children = [], Group = Some 1\<rparr>],
      groups = [\<lparr>Equivalents = [0], Prop_Schema = [1, 2], EngineType = EngineTiKV\<rparr>,
                \<lparr>Equivalents = [1], Prop_Schema = [1, 2], EngineType = EngineTiKV\<rparr>]\<rparr>"

section \<open>Well-formed inputs and re-application\<close>

text \<open>
  An equal condition of a join compares a column of the left child with a column of the
  right child; the loop over the equal conditions relies on it.
\<close>

definition eqCondOverColumns :: "scalar_function \<Rightarrow> bool" where
  "eqCondOverColumns eqCond =
     (case GetArgs eqCond of Column l # Column r # _ \<Rightarrow> True | _ \<Rightarrow> False)"

text \<open>
  Modelled from the spec: the matcher, which enumerates the bindings of a pattern, is not
  part of the file under verification. After a rule has been applied to a binding of a
  two-level pattern, the binding to apply it to again is the old one when nothing was
  rewritten; otherwise it is the returned GroupExpr (placed by the driver in the Group of
  the old one) with the first member of its first child Group. There is none when the
  returned GroupExpr has no child.
\<close>

definition resultingBinding :: "memo_store \<Rightarrow> transform_result \<Rightarrow> expr_iter \<Rightarrow> expr_iter option" where
  "resultingBinding s r old =
     (case newExprs r of
        [] \<Rightarrow> Some old
      | e # _ \<Rightarrow>
          do {
            ge \<leftarrow> getGroupExpr s e;
            g \<leftarrow> at_index (Children ge) 0;
            grp \<leftarrow> getGroup s g;
            m \<leftarrow> at_index (Equivalents grp) 0;
            Some (ExprIter (it_Group old) (Some e) [ExprIter g (Some m) []])
          })"

section \<open>Auxiliary facts\<close>

lemma at_index_Some_iff: "at_index xs i = Some x \<longleftrightarrow> i < length xs \<and> xs ! i = x"
  by (auto simp: at_index_def)

lemma returns_early_iff: "returns_early p xs = list_ex p xs"
  by (induction xs) auto

lemmas store_ops =
  rewrite_def no_rewrite_def newPlan_def NewGroupExpr_def SetChildren_def NewGroupWithSchema_def
  SetEngineType_def setPlan_def getGroup_def getGroupExpr_def getPlan_def exprGroupSchema_def
  at_index_def nth_append Let_def

lemmas example_defs =
  chain_memo_def chain_binding_def join_memo_def plain_join_def
  example_collab_def GetExpr_def childExpr_def

lemma example_collab_fields:
  "DetachCondAndBuildRangeForIndex example_collab = (\<lambda>conds cols lens.
           Inr \<lparr>res_AccessConds = filter (isAccessCond cols) conds,
                res_RemainedConds = filter (\<lambda>e. \<not> isAccessCond cols e) conds,
                res_Ranges = [],
                res_EqCondCount = int (length (filter (isAccessCond cols) conds))\<rparr>)"
  "HasAssignSetVarFunc example_collab = hasFunc ''setvar''"
  "ExprsHasSideEffects example_collab = list_ex (hasFunc ''setvar'')"
  "ColumnSubstitute example_collab = (\<lambda>e sch es. substituteColumns sch es e)"
  "ExtractFiltersFromDNFs example_collab = (\<lambda>conds. conds)"
  "PropagateConstant example_collab = (\<lambda>conds. conds)"
  "Conds2TableDual example_collab = example_Conds2TableDual"
  "ExtractOnCondition example_collab = example_ExtractOnCondition"
  "RemoveDupExprs example_collab = remdups"
  "CheckAggCanPushCop example_collab = (\<lambda>funcs gby. True)"
  "BuildFinalModeAggregation example_collab =
     (\<lambda>funcs gby sch. (map (\<lambda>f. f\<lparr>agg_Mode := FinalMode\<rparr>) funcs, gby, sch))"
  "RemoveUnnecessaryFirstRow example_collab = (\<lambda>finalFuncs finalGby funcs gby sch. funcs)"
  by (simp_all add: example_collab_def)

lemma sameConds_refl: "sameConds xs xs"
  by (induction xs) (simp_all add: sameConds_def)

lemma sameConds_iff: "length xs = length ys \<Longrightarrow> sameConds xs ys \<longleftrightarrow> xs = ys"
  by (induction xs ys rule: list_induct2) (auto simp: sameConds_def)

lemma merged_conditions:
  "(if acc \<noteq> [] then conds @ acc else conds) = conds @ acc"
  by simp

lemma PushSelDownIndexScan_first_application:
  assumes root: "GetExpr s old = Some (oa, oe)"
    and sel: "getPlan s (ExprNode oe) = Some (LogicalSelection conds)"
    and child: "childExpr s old = Some (ci, ca, ce)"
    and scan: "getPlan s (ExprNode ce) = Some (LogicalIndexScan iscan)"
  shows "(is_IdxCols iscan = [] \<longrightarrow>
            PushSelDownIndexScan_OnTransform c s old =
              Some (\<lparr>newExprs = [], eraseOld = False, eraseAll = False, err = None\<rparr>, s))
       \<and> (\<forall>e. is_IdxCols iscan \<noteq> []
              \<and> DetachCondAndBuildRangeForIndex c (conds @ is_AccessConds iscan)
                   (is_IdxCols iscan) (is_IdxColLens iscan) = Inl e
            \<longrightarrow> PushSelDownIndexScan_OnTransform c s old =
              Some (\<lparr>newExprs = [], eraseOld = False, eraseAll = False, err = Some e\<rparr>, s))
       \<and> (\<forall>res. is_IdxCols iscan \<noteq> []
              \<and> DetachCondAndBuildRangeForIndex c (conds @ is_AccessConds iscan)
                   (is_IdxCols iscan) (is_IdxColLens iscan) = Inr res
              \<and> res_AccessConds res = is_AccessConds iscan
            \<longrightarrow> PushSelDownIndexScan_OnTransform c s old =
              Some (\<lparr>newExprs = [], eraseOld = False, eraseAll = False, err = None\<rparr>, s))
       \<and> (\<forall>res. is_IdxCols iscan \<noteq> []
              \<and> DetachCondAndBuildRangeForIndex c (conds @ is_AccessConds iscan)
                   (is_IdxCols iscan) (is_IdxColLens iscan) = Inr res
              \<and> res_AccessConds res \<noteq> is_AccessConds iscan
              \<and> res_RemainedConds res = []
            \<longrightarrow> PushSelDownIndexScan_OnTransform c s old =
              Some (\<lparr>newExprs = [length (gexprs s)], eraseOld = True, eraseAll = False, err = None\<rparr>,
                    s\<lparr>plans := plans s @ [LogicalIndexScan
                          (iscan\<lparr>is_EqCondCount := res_EqCondCount res,
                                 is_AccessConds := res_AccessConds res,
                                 is_Ranges := res_Ranges res\<rparr>)],
                      gexprs := gexprs s @
                          [\<lparr>ExprNode = length (plans s), Children = [], Group = None\<rparr>]\<rparr>))
       \<and> (\<forall>res sch. is_IdxCols iscan \<noteq> []
              \<and> DetachCondAndBuildRangeForIndex c (conds @ is_AccessConds iscan)
                   (is_IdxCols iscan) (is_IdxColLens iscan) = Inr res
              \<and> res_AccessConds res \<noteq> is_AccessConds iscan
              \<and> res_RemainedConds res \<noteq> []
              \<and> exprGroupSchema s ce = Some sch
            \<longrightarrow> PushSelDownIndexScan_OnTransform c s old =
              Some (\<lparr>newExprs = [Suc (length (gexprs s))], eraseOld = True, eraseAll = False, err = None\<rparr>,
                    s\<lparr>plans := plans s @ [LogicalIndexScan
                          (iscan\<lparr>is_EqCondCount := res_EqCondCount res,
                                 is_AccessConds := res_AccessConds res,
                                 is_Ranges := res_Ranges res\<rparr>),
                          LogicalSelection (res_RemainedConds res)],
                      gexprs := gexprs s @
                          [\<lparr>ExprNode = length (plans s), Children = [],
                            Group = Some (length (groups s))\<rparr>,
                           \<lparr>ExprNode = Suc (length (plans s)), Children = [length (groups s)],
                            Group = None\<rparr>],
                      groups := groups s @
                          [\<lparr>Equivalents = [length (gexprs s)], Prop_Schema = sch,
                            EngineType = EngineTiDB\<rparr>]\<rparr>))"
proof (intro conjI allI impI; (elim conjE)?)
  assume "is_IdxCols iscan = []"
  then show "PushSelDownIndexScan_OnTransform c s old =
      Some (\<lparr>newExprs = [], eraseOld = False, eraseAll = False, err = None\<rparr>, s)"
    using root sel child scan
    by (simp add: PushSelDownIndexScan_OnTransform_def no_rewrite_def)
next
  fix e
  assume "is_IdxCols iscan \<noteq> []"
    and "DetachCondAndBuildRangeForIndex c (conds @ is_AccessConds iscan)
           (is_IdxCols iscan) (is_IdxColLens iscan) = Inl e"
  then show "PushSelDownIndexScan_OnTransform c s old =
      Some (\<lparr>newExprs = [], eraseOld = False, eraseAll = False, err = Some e\<rparr>, s)"
    using root sel child scan
    by (simp add: PushSelDownIndexScan_OnTransform_def merged_conditions)
next
  fix res
  assume "is_IdxCols iscan \<noteq> []"
    and "DetachCondAndBuildRangeForIndex c (conds @ is_AccessConds iscan)
           (is_IdxCols iscan) (is_IdxColLens iscan) = Inr res"
    and "res_AccessConds res = is_AccessConds iscan"
  then show "PushSelDownIndexScan_OnTransform c s old =
      Some (\<lparr>newExprs = [], eraseOld = False, eraseAll = False, err = None\<rparr>, s)"
    using root sel child scan
    by (simp add: PushSelDownIndexScan_OnTransform_def merged_conditions sameConds_refl sameConds_iff no_rewrite_def)
next
  fix res
  assume "is_IdxCols iscan \<noteq> []"
    and "DetachCondAndBuildRangeForIndex c (conds @ is_AccessConds iscan)
           (is_IdxCols iscan) (is_IdxColLens iscan) = Inr res"
    and "res_AccessConds res \<noteq> is_AccessConds iscan"
    and "res_RemainedConds res = []"
  then show "PushSelDownIndexScan_OnTransform c s old =
              Some (\<lparr>newExprs = [length (gexprs s)], eraseOld = True, eraseAll = False, err = None\<rparr>,
                    s\<lparr>plans := plans s @ [LogicalIndexScan
                          (iscan\<lparr>is_EqCondCount := res_EqCondCount res,
                                 is_AccessConds := res_AccessConds res,
                                 is_Ranges := res_Ranges res\<rparr>)],
                      gexprs := gexprs s @
                          [\<lparr>ExprNode = length (plans s), Children = [], Group = None\<rparr>]\<rparr>)"
    using root sel child scan
    by (simp add: PushSelDownIndexScan_OnTransform_def merged_conditions sameConds_refl sameConds_iff store_ops)
next
  fix res sch
  assume "is_IdxCols iscan \<noteq> []"
    and "DetachCondAndBuildRangeForIndex c (conds @ is_AccessConds iscan)
           (is_IdxCols iscan) (is_IdxColLens iscan) = Inr res"
    and "res_AccessConds res \<noteq> is_AccessConds iscan"
    and "res_RemainedConds res \<noteq> []"
    and "exprGroupSchema s ce = Some sch"
  then show "PushSelDownIndexScan_OnTransform c s old =
              Some (\<lparr>newExprs = [Suc (length (gexprs s))], eraseOld = True, eraseAll = False, err = None\<rparr>,
                    s\<lparr>plans := plans s @ [LogicalIndexScan
                          (iscan\<lparr>is_EqCondCount := res_EqCondCount res,
                                 is_AccessConds := res_AccessConds res,
                                 is_Ranges := res_Ranges res\<rparr>),
                          LogicalSelection (res_RemainedConds res)],
                      gexprs := gexprs s @
                          [\<lparr>ExprNode = length (plans s), Children = [],
                            Group = Some (length (groups s))\<rparr>,
                           \<lparr>ExprNode = Suc (length (plans s)), Children = [length (groups s)],
                            Group = None\<rparr>],
                      groups := groups s @
                          [\<lparr>Equivalents = [length (gexprs s)], Prop_Schema = sch,
                            EngineType = EngineTiDB\<rparr>]\<rparr>)"
    using root sel child scan
    by (auto simp: PushSelDownIndexScan_OnTransform_def merged_conditions sameConds_refl sameConds_iff store_ops
        split: option.splits)
qed

lemma PushSelDownIndexScan_second_application:
  assumes root: "GetExpr s old = Some (oa, oe)"
    and sel: "getPlan s (ExprNode oe) = Some (LogicalSelection conds)"
    and child: "childExpr s old = Some (ci, ca, ce)"
    and scan: "getPlan s (ExprNode ce) = Some (LogicalIndexScan iscan)"
    and idem: "\<forall>cs r. DetachCondAndBuildRangeForIndex c cs (is_IdxCols iscan) (is_IdxColLens iscan) = Inr r
        \<longrightarrow> (\<exists>r'. DetachCondAndBuildRangeForIndex c (res_RemainedConds r @ res_AccessConds r)
                    (is_IdxCols iscan) (is_IdxColLens iscan) = Inr r'
                \<and> res_AccessConds r' = res_AccessConds r)"
    and first: "PushSelDownIndexScan_OnTransform c s old = Some (r1, s1)"
    and ok: "err r1 = None"
    and again: "resultingBinding s1 r1 old = Some old2"
  shows "PushSelDownIndexScan_OnTransform c s1 old2 =
           Some (\<lparr>newExprs = [], eraseOld = False, eraseAll = False, err = None\<rparr>, s1)"
proof (cases "newExprs r1")
  case Nil
  with again have "old2 = old" by (simp add: resultingBinding_def)
  moreover have "s1 = s"
    using first Nil root sel child scan
    by (auto simp: PushSelDownIndexScan_OnTransform_def store_ops
        split: if_splits sum.splits Option.bind_splits)
  moreover have "r1 = no_rewrite"
    using first Nil root sel child scan ok
    by (auto simp: PushSelDownIndexScan_OnTransform_def store_ops
        split: if_splits sum.splits Option.bind_splits)
  ultimately show ?thesis using first by (simp add: no_rewrite_def)
next
  case (Cons e es)
  from first Cons root sel child scan obtain res where
    cols: "is_IdxCols iscan \<noteq> []"
    and det: "DetachCondAndBuildRangeForIndex c
        (if is_AccessConds iscan \<noteq> [] then conds @ is_AccessConds iscan else conds)
        (is_IdxCols iscan) (is_IdxColLens iscan) = Inr res"
    by (auto simp: PushSelDownIndexScan_OnTransform_def store_ops
        split: if_splits sum.splits Option.bind_splits)
  from idem [rule_format, OF det] obtain r' where
    det': "DetachCondAndBuildRangeForIndex c (res_RemainedConds res @ res_AccessConds res)
                    (is_IdxCols iscan) (is_IdxColLens iscan) = Inr r'"
    and acc: "res_AccessConds r' = res_AccessConds res"
    by blast
  show ?thesis
  proof (cases "res_RemainedConds res = []")
    case True
    with first Cons root sel child scan cols det again show ?thesis
      by (auto simp: PushSelDownIndexScan_OnTransform_def resultingBinding_def store_ops
           split: if_splits sum.splits Option.bind_splits)
  next
    case False
    with first Cons root sel child scan cols det again det' acc show ?thesis
      by (auto simp: PushSelDownIndexScan_OnTransform_def resultingBinding_def store_ops
           GetExpr_def childExpr_def sameConds_refl
           split: if_splits sum.splits Option.bind_splits)
  qed
qed

lemma appendJoinKeys_conditions:
  "list_all eqCondOverColumns eqs \<Longrightarrow>
   \<exists>lk rk. appendJoinKeys eqs join =
      Some (join\<lparr>LeftJoinKeys := LeftJoinKeys join @ lk, RightJoinKeys := RightJoinKeys join @ rk\<rparr>)"
proof (induction eqs arbitrary: join)
  case Nil
  show ?case by (rule exI [of _ "[]"], rule exI [of _ "[]"]) simp
next
  case (Cons eqCond eqs)
  from Cons.prems obtain l r rest where args: "GetArgs eqCond = Column l # Column r # rest"
    by (auto simp: eqCondOverColumns_def split: list.splits expression.splits)
  from Cons.prems have "list_all eqCondOverColumns eqs" by simp
  from Cons.IH [OF this, of "join\<lparr>LeftJoinKeys := LeftJoinKeys join @ [l],
      RightJoinKeys := RightJoinKeys join @ [r]\<rparr>"]
  obtain lk rk where "appendJoinKeys eqs (join\<lparr>LeftJoinKeys := LeftJoinKeys join @ [l],
      RightJoinKeys := RightJoinKeys join @ [r]\<rparr>) =
      Some (join\<lparr>LeftJoinKeys := LeftJoinKeys join @ [l] @ lk,
                 RightJoinKeys := RightJoinKeys join @ [r] @ rk\<rparr>)"
    by auto
  with args show ?case by auto
qed

section \<open>Theorems for the claims\<close>



text \<open>
  Claim C4. Take a binding \<open>Selection -> IndexScan\<close> and assume of the range analysis what
  the spec requires of it: run on the remaining conditions followed by the access
  conditions it returned, it returns the same access conditions.

  One application. With no index column the rule rewrites nothing. Otherwise it analyses
  the conditions of the Selection followed by the access conditions already attached to
  the scan (the merge). An error of the analysis is returned as it is. When the newly
  computed access conditions equal the ones of the scan, the rule rewrites nothing: empty
  result, both flags false, no error, store unchanged (the guard). When they differ, it
  returns, with \<open>eraseOld\<close> true, a new IndexScan holding the new access conditions, ranges
  and equal-condition count, alone when no condition remains and otherwise in a new Group
  under a new Selection of the remaining conditions.

  Two applications. When the first one returns without error, applying the rule again to
  the resulting \<open>Selection -> IndexScan\<close> (the old binding when nothing was rewritten, the new
  Selection over the new IndexScan otherwise) rewrites nothing: the result is empty, both
  flags are false, there is no error and the store is unchanged.
\<close>

theorem PushSelDownIndexScan_merges_skips_and_reaches_fixpoint:
  assumes root: "GetExpr s old = Some (oa, oe)"
    and sel: "getPlan s (ExprNode oe) = Some (LogicalSelection conds)"
    and child: "childExpr s old = Some (ci, ca, ce)"
    and scan: "getPlan s (ExprNode ce) = Some (LogicalIndexScan iscan)"
    and idem: "\<forall>cs r. DetachCondAndBuildRangeForIndex c cs (is_IdxCols iscan) (is_IdxColLens iscan) = Inr r
        \<longrightarrow> (\<exists>r'. DetachCondAndBuildRangeForIndex c (res_RemainedConds r @ res_AccessConds r)
                    (is_IdxCols iscan) (is_IdxColLens iscan) = Inr r'
                \<and> res_AccessConds r' = res_AccessConds r)"
  shows "((is_IdxCols iscan = [] \<longrightarrow>
            PushSelDownIndexScan_OnTransform c s old =
              Some (\<lparr>newExprs = [], eraseOld = False, eraseAll = False, err = None\<rparr>, s))
       \<and> (\<forall>e. is_IdxCols iscan \<noteq> []
              \<and> DetachCondAndBuildRangeForIndex c (conds @ is_AccessConds iscan)
                   (is_IdxCols iscan) (is_IdxColLens iscan) = Inl e
            \<longrightarrow> PushSelDownIndexScan_OnTransform c s old =
              Some (\<lparr>newExprs = [], eraseOld = False, eraseAll = False, err = Some e\<rparr>, s))
       \<and> (\<forall>res. is_IdxCols iscan \<noteq> []
              \<and> DetachCondAndBuildRangeForIndex c (conds @ is_AccessConds iscan)
                   (is_IdxCols iscan) (is_IdxColLens iscan) = Inr res
              \<and> res_AccessConds res = is_AccessConds iscan
            \<longrightarrow> PushSelDownIndexScan_OnTransform c s old =
              Some (\<lparr>newExprs = [], eraseOld = False, eraseAll = False, err = None\<rparr>, s))
       \<and> (\<forall>res. is_IdxCols iscan \<noteq> []
              \<and> DetachCondAndBuildRangeForIndex c (conds @ is_AccessConds iscan)
                   (is_IdxCols iscan) (is_IdxColLens iscan) = Inr res
              \<and> res_AccessConds res \<noteq> is_AccessConds iscan
              \<and> res_RemainedConds res = []
            \<longrightarrow> PushSelDownIndexScan_OnTransform c s old =
              Some (\<lparr>newExprs = [length (gexprs s)], eraseOld = True, eraseAll = False, err = None\<rparr>,
                    s\<lparr>plans := plans s @ [LogicalIndexScan
                          (iscan\<lparr>is_EqCondCount := res_EqCondCount res,
                                 is_AccessConds := res_AccessConds res,
                                 is_Ranges := res_Ranges res\<rparr>)],
                      gexprs := gexprs s @
                          [\<lparr>ExprNode = length (plans s), Children = [], Group = None\<rparr>]\<rparr>))
       \<and> (\<forall>res sch. is_IdxCols iscan \<noteq> []
              \<and> DetachCondAndBuildRangeForIndex c (conds @ is_AccessConds iscan)
                   (is_IdxCols iscan) (is_IdxColLens iscan) = Inr res
              \<and> res_AccessConds res \<noteq> is_AccessConds iscan
              \<and> res_RemainedConds res \<noteq> []
              \<and> exprGroupSchema s ce = Some sch
            \<longrightarrow> PushSelDownIndexScan_OnTransform c s old =
              Some (\<lparr>newExprs = [Suc (length (gexprs s))], eraseOld = True, eraseAll = False, err = None\<rparr>,
                    s\<lparr>plans := plans s @ [LogicalIndexScan
                          (iscan\<lparr>is_EqCondCount := res_EqCondCount res,
                                 is_AccessConds := res_AccessConds res,
                                 is_Ranges := res_Ranges res\<rparr>),
                          LogicalSelection (res_RemainedConds res)],
                      gexprs := gexprs s @
                          [\<lparr>ExprNode = length (plans s), Children = [],
                            Group = Some (length (groups s))\<rparr>,
                           \<lparr>ExprNode = Suc (length (plans s)), Children = [length (groups s)],
                            Group = None\<rparr>],
                      groups := groups s @
                          [\<lparr>Equivalents = [length (gexprs s)], Prop_Schema = sch,
                            EngineType = EngineTiDB\<rparr>]\<rparr>)))
       \<and> (\<forall>r1 s1 old2.
             PushSelDownIndexScan_OnTransform c s old = Some (r1, s1)
             \<and> err r1 = None
             \<and> resultingBinding s1 r1 old = Some old2
           \<longrightarrow> PushSelDownIndexScan_OnTransform c s1 old2 =
                 Some (\<lparr>newExprs = [], eraseOld = False, eraseAll = False, err = None\<rparr>, s1))"
proof (rule conjI)
  show "\<forall>r1 s1 old2.
             PushSelDownIndexScan_OnTransform c s old = Some (r1, s1)
             \<and> err r1 = None
             \<and> resultingBinding s1 r1 old = Some old2
           \<longrightarrow> PushSelDownIndexScan_OnTransform c s1 old2 =
                 Some (\<lparr>newExprs = [], eraseOld = False, eraseAll = False, err = None\<rparr>, s1)"
    using PushSelDownIndexScan_second_application [OF root sel child scan idem] by blast
qed (rule PushSelDownIndexScan_first_application [OF root sel child scan])

theorem PushSelDownIndexScan_merges_skips_and_reaches_fixpoint_witness:
  "\<exists>s1. PushSelDownIndexScan_OnTransform example_collab
        (index_memo [ScalarFunction ''eq'' [Column 1, Constant (Some 3)],
                     ScalarFunction ''gt'' [Column 2, Constant (Some 4)]]
                    [ScalarFunction ''eq'' [Column 1, Constant (Some 7)]])
        chain_binding =
          Some (\<lparr>newExprs = [3], eraseOld = True, eraseAll = False, err = None\<rparr>, s1)
    \<and> getPlan s1 2 = Some (LogicalIndexScan
          \<lparr>is_Source = 0, is_IsDoubleRead = False, is_EqCondCount = 2,
           is_AccessConds = [ScalarFunction ''eq'' [Column 1, Constant (Some 3)],
                             ScalarFunction ''eq'' [Column 1, Constant (Some 7)]],
           is_Ranges = [], is_Index = 0, is_Columns = [1, 2], is_FullIdxCols = [1],
           is_FullIdxColLens = [- 1], is_IdxCols = [1], is_IdxColLens = [- 1]\<rparr>)
    \<and> getPlan s1 3 = Some (LogicalSelection [ScalarFunction ''gt'' [Column 2, Constant (Some 4)]])
    \<and> resultingBinding s1 \<lparr>newExprs = [3], eraseOld = True, eraseAll = False, err = None\<rparr>
          chain_binding = Some (ExprIter 0 (Some 3) [ExprIter 2 (Some 2) []])
    \<and> PushSelDownIndexScan_OnTransform example_collab s1
          (ExprIter 0 (Some 3) [ExprIter 2 (Some 2) []]) =
         Some (\<lparr>newExprs = [], eraseOld = False, eraseAll = False, err = None\<rparr>, s1)"
proof -
  let ?sel = "[ScalarFunction ''eq'' [Column 1, Constant (Some 3)],
               ScalarFunction ''gt'' [Column 2, Constant (Some 4)]]"
  let ?acc = "[ScalarFunction ''eq'' [Column 1, Constant (Some 7)]]"
  let ?m = "index_memo ?sel ?acc"
  let ?iscan = "\<lparr>is_Source = 0, is_IsDoubleRead = False, is_EqCondCount = 0,
                  is_AccessConds = ?acc, is_Ranges = [], is_Index = 0,
                  is_Columns = [1, 2], is_FullIdxCols = [1], is_FullIdxColLens = [- 1],
                  is_IdxCols = [1], is_IdxColLens = [- 1]\<rparr>"
  let ?ce = "\<lparr>ExprNode = 1, Children = [], Group = Some 1\<rparr>"
  let ?res = "\<lparr>res_AccessConds = [ScalarFunction ''eq'' [Column 1, Constant (Some 3)],
                                  ScalarFunction ''eq'' [Column 1, Constant (Some 7)]],
               res_RemainedConds = [ScalarFunction ''gt'' [Column 2, Constant (Some 4)]],
               res_Ranges = [], res_EqCondCount = 2\<rparr>"
  have root: "GetExpr ?m chain_binding = Some (0, \<lparr>ExprNode = 0, Children = [1], Group = Some 0\<rparr>)"
    and sel: "getPlan ?m (ExprNode \<lparr>ExprNode = 0, Children = [1], Group = Some 0\<rparr>) =
                Some (LogicalSelection ?sel)"
    and child: "childExpr ?m chain_binding = Some (ExprIter 1 (Some 1) [], 1, ?ce)"
    and scan: "getPlan ?m (ExprNode ?ce) = Some (LogicalIndexScan ?iscan)"
    and sch: "exprGroupSchema ?m ?ce = Some [1, 2]"
    by (simp_all add: example_defs index_memo_def store_ops)
  have idem: "\<forall>cs r. DetachCondAndBuildRangeForIndex example_collab cs
        (is_IdxCols ?iscan) (is_IdxColLens ?iscan) = Inr r
      \<longrightarrow> (\<exists>r'. DetachCondAndBuildRangeForIndex example_collab
            (res_RemainedConds r @ res_AccessConds r) (is_IdxCols ?iscan) (is_IdxColLens ?iscan) = Inr r'
          \<and> res_AccessConds r' = res_AccessConds r)"
    by (auto simp: example_collab_fields filter_empty_conv)
  have det: "DetachCondAndBuildRangeForIndex example_collab (?sel @ is_AccessConds ?iscan)
      (is_IdxCols ?iscan) (is_IdxColLens ?iscan) = Inr ?res"
    by (simp add: example_collab_fields)
  note both = PushSelDownIndexScan_merges_skips_and_reaches_fixpoint
    [OF root sel child scan idem]
  from both det sch
  have first: "PushSelDownIndexScan_OnTransform example_collab ?m chain_binding =
      Some (\<lparr>newExprs = [3], eraseOld = True, eraseAll = False, err = None\<rparr>,
            ?m\<lparr>plans := plans ?m @ [LogicalIndexScan
                          (?iscan\<lparr>is_EqCondCount := res_EqCondCount ?res,
                                 is_AccessConds := res_AccessConds ?res,
                                 is_Ranges := res_Ranges ?res\<rparr>),
                          LogicalSelection (res_RemainedConds ?res)],
                      gexprs := gexprs ?m @
                          [\<lparr>ExprNode = length (plans ?m), Children = [],
                            Group = Some (length (groups ?m))\<rparr>,
                           \<lparr>ExprNode = Suc (length (plans ?m)), Children = [length (groups ?m)],
                            Group = None\<rparr>],
                      groups := groups ?m @
                          [\<lparr>Equivalents = [length (gexprs ?m)], Prop_Schema = [1, 2],
                            EngineType = EngineTiDB\<rparr>]\<rparr>)"
    (is "_ = Some (?r1, ?s1)")
    by (simp add: index_memo_def)
  have again: "resultingBinding ?s1 ?r1 chain_binding = Some (ExprIter 0 (Some 3) [ExprIter 2 (Some 2) []])"
    by (simp add: resultingBinding_def index_memo_def chain_binding_def store_ops)
  from both first again
  have second: "PushSelDownIndexScan_OnTransform example_collab ?s1
      (ExprIter 0 (Some 3) [ExprIter 2 (Some 2) []]) =
         Some (\<lparr>newExprs = [], eraseOld = False, eraseAll = False, err = None\<rparr>, ?s1)"
    by simp
  have plans: "getPlan ?s1 2 = Some (LogicalIndexScan
          \<lparr>is_Source = 0, is_IsDoubleRead = False, is_EqCondCount = 2,
           is_AccessConds = [ScalarFunction ''eq'' [Column 1, Constant (Some 3)],
                             ScalarFunction ''eq'' [Column 1, Constant (Some 7)]],
           is_Ranges = [], is_Index = 0, is_Columns = [1, 2], is_FullIdxCols = [1],
           is_FullIdxColLens = [- 1], is_IdxCols = [1], is_IdxColLens = [- 1]\<rparr>)"
    "getPlan ?s1 3 = Some (LogicalSelection [ScalarFunction ''gt'' [Column 2, Constant (Some 4)]])"
    by (simp_all add: index_memo_def store_ops)
  from first again second plans show ?thesis by blast
qed

text \<open>
  Claim C5. Take a binding whose child is a projection with an expression that assigns a
  session variable (for MergeAdjacentProjection this is the lower projection, the one the
  rule inspects). Then \<^verbatim>\<open>PushTopNDownProjection.Match\<close> and
  \<^verbatim>\<open>MergeAggregationProjection.Match\<close> reject the binding, and
  \<^verbatim>\<open>MergeAdjacentProjection.OnTransform\<close> (whose Match accepts everything) returns an
  empty result with both flags false, no error and an unchanged store. The last two rules
  ask \<^verbatim>\<open>ExprsHasSideEffects\<close>, so the theorem assumes what the spec says of it: a list
  holding an assignment has a side effect.
\<close>

theorem assignment_in_projection_blocks_rewrites:
  assumes child: "childExpr s old = Some (ci, ca, ce)"
    and proj: "getPlan s (ExprNode ce) = Some (LogicalProjection proj)"
    and assign: "list_ex (HasAssignSetVarFunc c) (Exprs proj)"
    and side_effect: "\<And>es. list_ex (HasAssignSetVarFunc c) es \<Longrightarrow> ExprsHasSideEffects c es"
  shows "PushTopNDownProjection_Match c s old = Some False
       \<and> MergeAggregationProjection_Match c s old = Some False
       \<and> (\<forall>oa oe upper. GetExpr s old = Some (oa, oe)
             \<and> getPlan s (ExprNode oe) = Some (LogicalProjection upper)
           \<longrightarrow> baseRule_Match s old = Some True
             \<and> MergeAdjacentProjection_OnTransform c s old =
                 Some (\<lparr>newExprs = [], eraseOld = False, eraseAll = False, err = None\<rparr>, s))"
proof -
  have se: "ExprsHasSideEffects c (Exprs proj)"
    using side_effect [OF assign] .
  have topn: "PushTopNDownProjection_Match c s old = Some False"
    using child proj assign by (simp add: PushTopNDownProjection_Match_def returns_early_iff)
  have aggr: "MergeAggregationProjection_Match c s old = Some False"
    using child proj se by (simp add: MergeAggregationProjection_Match_def)
  have merge: "MergeAdjacentProjection_OnTransform c s old =
      Some (\<lparr>newExprs = [], eraseOld = False, eraseAll = False, err = None\<rparr>, s)"
    if "GetExpr s old = Some (oa, oe)" "getPlan s (ExprNode oe) = Some (LogicalProjection upper)"
    for oa oe upper
    using that child proj se by (simp add: MergeAdjacentProjection_OnTransform_def no_rewrite_def)
  from topn aggr merge show ?thesis by (simp add: baseRule_Match_def)
qed

theorem assignment_in_projection_blocks_rewrites_witness:
  "PushTopNDownProjection_Match example_collab
      (chain_memo (LogicalProjection \<lparr>Exprs = [Column 3], proj_Schema = [4]\<rparr>) [4]
         (LogicalProjection \<lparr>Exprs = [ScalarFunction ''setvar'' [Constant (Some 1)]], proj_Schema = [3]\<rparr>)
         [3] [1]) chain_binding = Some False
   \<and> MergeAggregationProjection_Match example_collab
      (chain_memo (LogicalProjection \<lparr>Exprs = [Column 3], proj_Schema = [4]\<rparr>) [4]
         (LogicalProjection \<lparr>Exprs = [ScalarFunction ''setvar'' [Constant (Some 1)]], proj_Schema = [3]\<rparr>)
         [3] [1]) chain_binding = Some False
   \<and> MergeAdjacentProjection_OnTransform example_collab
      (chain_memo (LogicalProjection \<lparr>Exprs = [Column 3], proj_Schema = [4]\<rparr>) [4]
         (LogicalProjection \<lparr>Exprs = [ScalarFunction ''setvar'' [Constant (Some 1)]], proj_Schema = [3]\<rparr>)
         [3] [1]) chain_binding =
       Some (\<lparr>newExprs = [], eraseOld = False, eraseAll = False, err = None\<rparr>,
         chain_memo (LogicalProjection \<lparr>Exprs = [Column 3], proj_Schema = [4]\<rparr>) [4]
         (LogicalProjection \<lparr>Exprs = [ScalarFunction ''setvar'' [Constant (Some 1)]], proj_Schema = [3]\<rparr>)
         [3] [1])"
proof -
  let ?m = "chain_memo (LogicalProjection \<lparr>Exprs = [Column 3], proj_Schema = [4]\<rparr>) [4]
         (LogicalProjection \<lparr>Exprs = [ScalarFunction ''setvar'' [Constant (Some 1)]], proj_Schema = [3]\<rparr>)
         [3] [1]"
  have child: "childExpr ?m chain_binding =
      Some (ExprIter 1 (Some 1) [], 1, \<lparr>ExprNode = 1, Children = [2], Group = Some 1\<rparr>)"
    by (simp add: example_defs store_ops)
  have proj: "getPlan ?m (ExprNode \<lparr>ExprNode = 1, Children = [2], Group = Some 1\<rparr>) =
      Some (LogicalProjection \<lparr>Exprs = [ScalarFunction ''setvar'' [Constant (Some 1)]], proj_Schema = [3]\<rparr>)"
    by (simp add: example_defs store_ops)
  have assign: "list_ex (HasAssignSetVarFunc example_collab)
      (Exprs \<lparr>Exprs = [ScalarFunction ''setvar'' [Constant (Some 1)]], proj_Schema = [3]\<rparr>)"
    by (simp add: example_collab_def)
  have side: "\<And>es. list_ex (HasAssignSetVarFunc example_collab) es \<Longrightarrow> ExprsHasSideEffects example_collab es"
    by (simp add: example_collab_def)
  have root: "GetExpr ?m chain_binding = Some (0, \<lparr>ExprNode = 0, Children = [1], Group = Some 0\<rparr>)
      \<and> getPlan ?m (ExprNode \<lparr>ExprNode = 0, Children = [1], Group = Some 0\<rparr>) =
          Some (LogicalProjection \<lparr>Exprs = [Column 3], proj_Schema = [4]\<rparr>)"
    by (simp add: example_defs store_ops)
  from assignment_in_projection_blocks_rewrites [OF child proj assign side] root
  show ?thesis by blast
qed

text \<open>
  Claim C7. For a binding \<open>Aggregation -> TiKVSingleGather\<close>,
  \<^verbatim>\<open>PushAggDownGather.Match\<close> accepts exactly when every aggregate function is in
  complete mode and \<^verbatim>\<open>CheckAggCanPushCop\<close> passes on the aggregate functions and the
  group-by items. \<^verbatim>\<open>OnTransform\<close> returns one GroupExpr, the final aggregation built
  by \<^verbatim>\<open>BuildFinalModeAggregation\<close>, with \<open>eraseOld\<close> and \<open>eraseAll\<close> false and no
  error; every operator, GroupExpr and Group of the memo before the call is still there,
  unchanged, so the single-stage aggregation stays in its Group.
\<close>

theorem PushAggDownGather_splits_and_keeps_old:
  assumes root: "GetExpr s old = Some (oa, oe)"
    and agg: "getPlan s (ExprNode oe) = Some (LogicalAggregation agg)"
    and sch: "exprGroupSchema s oe = Some aggSchema"
    and child: "childExpr s old = Some (ci, ca, ce)"
    and gather: "getPlan s (ExprNode ce) = Some (TiKVSingleGather src)"
    and kids: "at_index (Children ce) 0 = Some x"
    and grp: "getGroup s x = Some cg"
    and final: "BuildFinalModeAggregation c
        (map (\<lambda>f. \<lparr>agg_Name = agg_Name f, agg_Args = agg_Args f,
                     agg_Mode = Partial1Mode, agg_RetTp = agg_RetTp f\<rparr>) (AggFuncs agg))
        (GroupByItems agg) aggSchema = (finalAggFuncs, finalGbyItems, partialSchema)"
  shows "PushAggDownGather_Match c s old =
           Some (list_all (\<lambda>f. agg_Mode f = CompleteMode) (AggFuncs agg)
                 \<and> CheckAggCanPushCop c (AggFuncs agg) (GroupByItems agg))
       \<and> (\<exists>e n g s'. PushAggDownGather_OnTransform c s old =
             Some (\<lparr>newExprs = [e], eraseOld = False, eraseAll = False, err = None\<rparr>, s')
           \<and> getGroupExpr s' e = Some \<lparr>ExprNode = n, Children = [g], Group = None\<rparr>
           \<and> getPlan s' n = Some (LogicalAggregation
                 \<lparr>AggFuncs = finalAggFuncs, GroupByItems = finalGbyItems\<rparr>)
           \<and> take (length (plans s)) (plans s') = plans s
           \<and> take (length (gexprs s)) (gexprs s') = gexprs s
           \<and> take (length (groups s)) (groups s') = groups s)"
proof (intro conjI)
  show "PushAggDownGather_Match c s old =
           Some (list_all (\<lambda>f. agg_Mode f = CompleteMode) (AggFuncs agg)
                 \<and> CheckAggCanPushCop c (AggFuncs agg) (GroupByItems agg))"
    using root agg
    by (simp add: PushAggDownGather_Match_def returns_early_iff list_ex_iff list_all_iff)
next
  have x: "x < length (groups s)"
    using grp by (simp add: getGroup_def at_index_Some_iff)
  show "\<exists>e n g s'. PushAggDownGather_OnTransform c s old =
             Some (\<lparr>newExprs = [e], eraseOld = False, eraseAll = False, err = None\<rparr>, s')
           \<and> getGroupExpr s' e = Some \<lparr>ExprNode = n, Children = [g], Group = None\<rparr>
           \<and> getPlan s' n = Some (LogicalAggregation
                 \<lparr>AggFuncs = finalAggFuncs, GroupByItems = finalGbyItems\<rparr>)
           \<and> take (length (plans s)) (plans s') = plans s
           \<and> take (length (gexprs s)) (gexprs s') = gexprs s
           \<and> take (length (groups s)) (groups s') = groups s"
    using root agg sch child gather kids grp final x
    by (simp add: PushAggDownGather_OnTransform_def rewrite_def newPlan_def NewGroupExpr_def
        SetChildren_def NewGroupWithSchema_def SetEngineType_def getGroup_def getGroupExpr_def
        getPlan_def at_index_def nth_append Let_def)
qed

theorem PushAggDownGather_splits_and_keeps_old_witness:
  "PushAggDownGather_Match example_collab
      (chain_memo (LogicalAggregation
           \<lparr>AggFuncs = [\<lparr>agg_Name = ''count'', agg_Args = [Column 1], agg_Mode = CompleteMode, agg_RetTp = 0\<rparr>],
            GroupByItems = [Column 2]\<rparr>) [5, 2] (TiKVSingleGather 0) [1, 2] [1, 2])
      chain_binding = Some True
   \<and> (\<exists>e n g s'. PushAggDownGather_OnTransform example_collab
      (chain_memo (LogicalAggregation
           \<lparr>AggFuncs = [\<lparr>agg_Name = ''count'', agg_Args = [Column 1], agg_Mode = CompleteMode, agg_RetTp = 0\<rparr>],
            GroupByItems = [Column 2]\<rparr>) [5, 2] (TiKVSingleGather 0) [1, 2] [1, 2])
      chain_binding = Some (\<lparr>newExprs = [e], eraseOld = False, eraseAll = False, err = None\<rparr>, s')
     \<and> getGroupExpr s' e = Some \<lparr>ExprNode = n, Children = [g], Group = None\<rparr>
     \<and> getPlan s' n = Some (LogicalAggregation
           \<lparr>AggFuncs = [\<lparr>agg_Name = ''count'', agg_Args = [Column 1], agg_Mode = FinalMode, agg_RetTp = 0\<rparr>],
            GroupByItems = [Column 2]\<rparr>))"
proof -
  let ?agg = "\<lparr>AggFuncs = [\<lparr>agg_Name = ''count'', agg_Args = [Column 1], agg_Mode = CompleteMode, agg_RetTp = 0\<rparr>],
            GroupByItems = [Column 2]\<rparr>"
  let ?m = "chain_memo (LogicalAggregation ?agg) [5, 2] (TiKVSingleGather 0) [1, 2] [1, 2]"
  have "PushAggDownGather_Match example_collab ?m chain_binding =
           Some (list_all (\<lambda>f. agg_Mode f = CompleteMode) (AggFuncs ?agg)
                 \<and> CheckAggCanPushCop example_collab (AggFuncs ?agg) (GroupByItems ?agg))
       \<and> (\<exists>e n g s'. PushAggDownGather_OnTransform example_collab ?m chain_binding =
             Some (\<lparr>newExprs = [e], eraseOld = False, eraseAll = False, err = None\<rparr>, s')
           \<and> getGroupExpr s' e = Some \<lparr>ExprNode = n, Children = [g], Group = None\<rparr>
           \<and> getPlan s' n = Some (LogicalAggregation
                 \<lparr>AggFuncs = [\<lparr>agg_Name = ''count'', agg_Args = [Column 1], agg_Mode = FinalMode, agg_RetTp = 0\<rparr>],
                  GroupByItems = [Column 2]\<rparr>)
           \<and> take (length (plans ?m)) (plans s') = plans ?m
           \<and> take (length (gexprs ?m)) (gexprs s') = gexprs ?m
           \<and> take (length (groups ?m)) (groups s') = groups ?m)"
    by (rule PushAggDownGather_splits_and_keeps_old [where oa = 0
          and oe = "\<lparr>ExprNode = 0, Children = [1], Group = Some 0\<rparr>"
          and ci = "ExprIter 1 (Some 1) []" and ca = 1
          and ce = "\<lparr>ExprNode = 1, Children = [2], Group = Some 1\<rparr>"
          and aggSchema = "[5, 2]" and src = 0 and x = 2 and partialSchema = "[5, 2]"
          and cg = "\<lparr>Equivalents = [2], Prop_Schema = [1, 2], EngineType = EngineTiKV\<rparr>"])
       (simp_all add: example_defs store_ops)
  then have "PushAggDownGather_Match example_collab ?m chain_binding = Some True"
    and "\<exists>e n g s'. PushAggDownGather_OnTransform example_collab ?m chain_binding =
             Some (\<lparr>newExprs = [e], eraseOld = False, eraseAll = False, err = None\<rparr>, s')
           \<and> getGroupExpr s' e = Some \<lparr>ExprNode = n, Children = [g], Group = None\<rparr>
           \<and> getPlan s' n = Some (LogicalAggregation
                 \<lparr>AggFuncs = [\<lparr>agg_Name = ''count'', agg_Args = [Column 1], agg_Mode = FinalMode, agg_RetTp = 0\<rparr>],
                  GroupByItems = [Column 2]\<rparr>)"
    by (simp add: example_collab_fields, blast)
  then show ?thesis by (rule conjI)
qed



text \<open>
  Claim C10. Take a binding \<open>Selection -> Join\<close> whose join is not an inner join (and
  whose equal conditions compare two columns, so that the loop over them does not panic).
  \<^verbatim>\<open>baseRule.Match\<close> accepts it, and \<^verbatim>\<open>OnTransform\<close> returns, without error and with
  \<open>eraseOld\<close> true, one new GroupExpr that points to the join operator and has the two
  child Groups of the old join. The store after the call is the store before it plus that
  GroupExpr, with the join keys of the equal conditions appended to the join operator: the
  four condition lists of the join are the old ones, no Selection and no Group is created,
  so the conditions of the matched Selection are in no part of the result.
\<close>

theorem PushSelDownJoin_non_inner_drops_selection:
  assumes "GetExpr s old = Some (oa, oe)"
    and "getPlan s (ExprNode oe) = Some (LogicalSelection conds)"
    and "childExpr s old = Some (ci, ja, joinExpr)"
    and "getPlan s (ExprNode joinExpr) = Some (LogicalJoin join)"
    and "Children joinExpr = [leftGroup, rightGroup]"
    and "JoinType join \<noteq> InnerJoin"
    and "list_all eqCondOverColumns (EqualConditions join)"
    and "RemoveDupExprs c [] = []"
  shows "baseRule_Match s old = Some True
       \<and> (\<exists>e lk rk. PushSelDownJoin_OnTransform c s old =
             Some (\<lparr>newExprs = [e], eraseOld = True, eraseAll = False, err = None\<rparr>,
                   s\<lparr>plans := (plans s)[ExprNode joinExpr := LogicalJoin
                          (join\<lparr>LeftJoinKeys := LeftJoinKeys join @ lk,
                                RightJoinKeys := RightJoinKeys join @ rk\<rparr>)],
                     gexprs := gexprs s @ [\<lparr>ExprNode = ExprNode joinExpr,
                          Children = [leftGroup, rightGroup], Group = None\<rparr>]\<rparr>)
           \<and> e = length (gexprs s))"
proof -
  from assms(7) obtain lk rk where keys: "appendJoinKeys (EqualConditions join) join =
      Some (join\<lparr>LeftJoinKeys := LeftJoinKeys join @ lk, RightJoinKeys := RightJoinKeys join @ rk\<rparr>)"
    using appendJoinKeys_conditions by blast
  have "PushSelDownJoin_OnTransform c s old =
             Some (\<lparr>newExprs = [length (gexprs s)], eraseOld = True, eraseAll = False, err = None\<rparr>,
                   s\<lparr>plans := (plans s)[ExprNode joinExpr := LogicalJoin
                          (join\<lparr>LeftJoinKeys := LeftJoinKeys join @ lk,
                                RightJoinKeys := RightJoinKeys join @ rk\<rparr>)],
                     gexprs := gexprs s @ [\<lparr>ExprNode = ExprNode joinExpr,
                          Children = [leftGroup, rightGroup], Group = None\<rparr>]\<rparr>)"
    using assms(1-6,8) keys
    by (cases "JoinType join")
       (simp_all add: PushSelDownJoin_OnTransform_def buildChildSelectionGroup_def store_ops)
  then show ?thesis by (auto simp: baseRule_Match_def)
qed

theorem PushSelDownJoin_non_inner_drops_selection_witness:
  "baseRule_Match
      (join_memo [ScalarFunction ''gt'' [Column 1, Constant (Some 5)]]
         ((plain_join LeftOuterJoin)\<lparr>EqualConditions := [(''eq'', [Column 1, Column 2])]\<rparr>))
      chain_binding = Some True
   \<and> (\<exists>s'. PushSelDownJoin_OnTransform example_collab
      (join_memo [ScalarFunction ''gt'' [Column 1, Constant (Some 5)]]
         ((plain_join LeftOuterJoin)\<lparr>EqualConditions := [(''eq'', [Column 1, Column 2])]\<rparr>))
      chain_binding = Some (\<lparr>newExprs = [4], eraseOld = True, eraseAll = False, err = None\<rparr>, s')
     \<and> getGroupExpr s' 4 = Some \<lparr>ExprNode = 1, Children = [2, 3], Group = None\<rparr>
     \<and> length (plans s') = 4 \<and> length (groups s') = 4)"
proof -
  let ?j = "(plain_join LeftOuterJoin)\<lparr>EqualConditions := [(''eq'', [Column 1, Column 2])]\<rparr>"
  let ?m = "join_memo [ScalarFunction ''gt'' [Column 1, Constant (Some 5)]] ?j"
  have "baseRule_Match ?m chain_binding = Some True
       \<and> (\<exists>e lk rk. PushSelDownJoin_OnTransform example_collab ?m chain_binding =
             Some (\<lparr>newExprs = [e], eraseOld = True, eraseAll = False, err = None\<rparr>,
                   ?m\<lparr>plans := (plans ?m)[ExprNode \<lparr>ExprNode = 1, Children = [2, 3], Group = Some 1\<rparr> := LogicalJoin
                          (?j\<lparr>LeftJoinKeys := LeftJoinKeys ?j @ lk,
                                RightJoinKeys := RightJoinKeys ?j @ rk\<rparr>)],
                     gexprs := gexprs ?m @ [\<lparr>ExprNode = ExprNode \<lparr>ExprNode = 1, Children = [2, 3], Group = Some 1\<rparr>,
                          Children = [2, 3], Group = None\<rparr>]\<rparr>)
           \<and> e = length (gexprs ?m))"
    by (rule PushSelDownJoin_non_inner_drops_selection [where oa = 0
          and oe = "\<lparr>ExprNode = 0, Children = [1], Group = Some 0\<rparr>"
          and ci = "ExprIter 1 (Some 1) []" and ja = 1
          and conds = "[ScalarFunction ''gt'' [Column 1, Constant (Some 5)]]"])
       (simp_all add: example_defs store_ops eqCondOverColumns_def GetArgs_def)
  then show ?thesis
    by (auto simp: join_memo_def store_ops)
qed

section \<open>The rules at inputs where they depart from the specification\<close>

text \<open>
  Claim C1 at a failing input. The memo holds \<open>Selection[col1 > 5] -> LeftOuterJoin\<close> over
  two scans. \<^verbatim>\<open>PushSelDownJoin.OnTransform\<close> returns one GroupExpr, the join over the two
  old child Groups, with \<open>eraseOld\<close> true; the store gains that GroupExpr and nothing else.
  The predicate \<open>col1 > 5\<close> is in no returned GroupExpr and in no new operator: the switch
  over the join type handles inner joins only, and the default case falls through to the
  code that builds the result.
\<close>

theorem PushSelDownJoin_left_outer_loses_predicate:
  "PushSelDownJoin_OnTransform example_collab
      (join_memo [ScalarFunction ''gt'' [Column 1, Constant (Some 5)]] (plain_join LeftOuterJoin))
      chain_binding =
     Some (\<lparr>newExprs = [4], eraseOld = True, eraseAll = False, err = None\<rparr>,
       (join_memo [ScalarFunction ''gt'' [Column 1, Constant (Some 5)]] (plain_join LeftOuterJoin))
         \<lparr>gexprs := gexprs (join_memo [ScalarFunction ''gt'' [Column 1, Constant (Some 5)]]
                               (plain_join LeftOuterJoin))
                     @ [\<lparr>ExprNode = 1, Children = [2, 3], Group = None\<rparr>]\<rparr>)"
  by (simp add: PushSelDownJoin_OnTransform_def buildChildSelectionGroup_def example_defs store_ops)

text \<open>
  Claim C6 at a failing input. The memo holds \<open>TopN(by=[col3 asc]) -> Projection\<close>, where
  the projection computes column 3 as the constant 7. After
  \<^verbatim>\<open>PushTopNDownProjection.OnTransform\<close> the new TopN still sorts by the constant 7, and
  the by-items of the old TopN operator have become empty: the loop that removes constant
  sort items assigns its result to \<^verbatim>\<open>topN.ByItems\<close>, not to \<^verbatim>\<open>newTopN.ByItems\<close>.
\<close>

theorem PushTopNDownProjection_keeps_constant_key:
  "getPlan (chain_memo
        (LogicalTopN \<lparr>topn_ByItems = [\<lparr>by_Expr = Column 3, by_Desc = False\<rparr>],
                      topn_Offset = 0, topn_Count = 10\<rparr>) [3]
        (LogicalProjection \<lparr>Exprs = [Constant (Some 7)], proj_Schema = [3]\<rparr>) [3] [1]) 0 =
     Some (LogicalTopN \<lparr>topn_ByItems = [\<lparr>by_Expr = Column 3, by_Desc = False\<rparr>],
                      topn_Offset = 0, topn_Count = 10\<rparr>)
   \<and> (\<exists>s'. PushTopNDownProjection_OnTransform example_collab
        (chain_memo
        (LogicalTopN \<lparr>topn_ByItems = [\<lparr>by_Expr = Column 3, by_Desc = False\<rparr>],
                      topn_Offset = 0, topn_Count = 10\<rparr>) [3]
        (LogicalProjection \<lparr>Exprs = [Constant (Some 7)], proj_Schema = [3]\<rparr>) [3] [1])
        chain_binding =
          Some (\<lparr>newExprs = [3], eraseOld = True, eraseAll = False, err = None\<rparr>, s')
      \<and> getGroupExpr s' 3 = Some \<lparr>ExprNode = 1, Children = [3], Group = None\<rparr>
      \<and> getGroup s' 3 = Some \<lparr>Equivalents = [4], Prop_Schema = [1], EngineType = EngineTiDB\<rparr>
      \<and> getGroupExpr s' 4 = Some \<lparr>ExprNode = 3, Children = [2], Group = Some 3\<rparr>
      \<and> getPlan s' 3 = Some (LogicalTopN
            \<lparr>topn_ByItems = [\<lparr>by_Expr = Constant (Some 7), by_Desc = False\<rparr>],
             topn_Offset = 0, topn_Count = 10\<rparr>)
      \<and> getPlan s' 0 = Some (LogicalTopN \<lparr>topn_ByItems = [], topn_Offset = 0, topn_Count = 10\<rparr>))"
  by (simp add: PushTopNDownProjection_OnTransform_def example_defs store_ops)

text \<open>
  Claim C9 at a failing input. The memo holds \<open>Selection[col1 = col2] -> InnerJoin\<close> over
  two scans; the join operator has no conditions and no join keys. After
  \<^verbatim>\<open>PushSelDownJoin.OnTransform\<close> the operator at the address of the old join, which
  the old join GroupExpr still points to, has the equal condition \<open>col1 = col2\<close> and the
  join keys \<open>col1\<close> and \<open>col2\<close>: the rule writes into the matched join instead of
  building a new one.
\<close>

theorem PushSelDownJoin_overwrites_old_join:
  "getPlan (join_memo [ScalarFunction ''eq'' [Column 1, Column 2]] (plain_join InnerJoin)) 1 =
     Some (LogicalJoin (plain_join InnerJoin))
   \<and> (\<exists>r s'. PushSelDownJoin_OnTransform example_collab
          (join_memo [ScalarFunction ''eq'' [Column 1, Column 2]] (plain_join InnerJoin))
          chain_binding = Some (r, s')
        \<and> getPlan s' 1 = Some (LogicalJoin
             ((plain_join InnerJoin)\<lparr>EqualConditions := [(''eq'', [Column 1, Column 2])],
                 LeftJoinKeys := [1], RightJoinKeys := [2]\<rparr>)))"
  by (simp add: PushSelDownJoin_OnTransform_def buildChildSelectionGroup_def example_defs store_ops
      ScalarFuncs2Exprs_def example_Conds2TableDual_def example_ExtractOnCondition_def
      onlyColumnsOf_def GetArgs_def)

end
